theory Spec2Isabelle
  imports Main
begin

section \<open>The route registry\<close>

text \<open>
  \<^verbatim>\<open>src/App.js\<close> builds the list of navigation items once (\<^verbatim>\<open>useMemo\<close> with no
  dependencies). Paths and labels are ASCII and are kept as strings; an icon is
  an emoji and is kept as its UTF-16 code units, which is what a JavaScript string holds.
  The lazily loaded view of an item is one of five modules.
\<close>

datatype component = Dashboard | MirrorConfig | MirrorOperations | History | Settings

type_synonym glyph = "nat list"

record navigation_item =
  path :: string
  icon :: glyph
  label :: string
  component :: component

definition navigationItems :: "navigation_item list" where
  "navigationItems =
    [\<lparr>path = ''/'', icon = [0xD83D, 0xDCCA], label = ''Dashboard'', component = Dashboard\<rparr>,
     \<lparr>path = ''/config'', icon = [0x2699, 0xFE0F], label = ''Mirror Configuration'',
        component = MirrorConfig\<rparr>,
     \<lparr>path = ''/operations'', icon = [0xD83D, 0xDD04], label = ''Mirror Operations'',
        component = MirrorOperations\<rparr>,
     \<lparr>path = ''/history'', icon = [0xD83D, 0xDCCB], label = ''History'', component = History\<rparr>,
     \<lparr>path = ''/settings'', icon = [0xD83D, 0xDD27], label = ''Settings'', component = Settings\<rparr>]"

section \<open>Rendering the side menu\<close>

text \<open>
  A callback is represented by the effects it has when it is invoked. The only callback
  handed to a menu item is \<^verbatim>\<open>() => handleItemClick(item.path)\<close>, and
  \<^verbatim>\<open>handleItemClick\<close> assigns \<^verbatim>\<open>window.location.href\<close>.
\<close>

datatype effect = SetLocationHref string

type_synonym callback = "effect list"

definition handleItemClick :: "string \<Rightarrow> callback" where
  "handleItemClick p = [SetLocationHref p]"

text \<open>
  What \<^verbatim>\<open>SideMenuItem\<close> returns: the outer \<^verbatim>\<open>div\<close> with its attributes
  (\<^verbatim>\<open>undefined\<close> is \<open>None\<close>: the attribute is absent), the \<^verbatim>\<open>Link\<close> inside it,
  the icon span, and the label span, which is rendered only when the menu is not collapsed.
\<close>

record side_menu_item =
  className :: string
  onClick :: callback
  role :: string
  tabIndex :: int
  aria_label :: "string option"
  aria_current :: "string option"
  title :: "string option"
  link_to :: string
  icon_span :: glyph
  label_span :: "string option"

definition SideMenuItem ::
  "string \<Rightarrow> glyph \<Rightarrow> string \<Rightarrow> bool \<Rightarrow> bool \<Rightarrow> callback \<Rightarrow> side_menu_item" where
  "SideMenuItem to ico lbl isActive isCollapsed onClk =
    \<lparr>className = ''side-menu-item '' @ (if isActive then ''active'' else ''''),
     onClick = onClk,
     role = ''button'',
     tabIndex = 0,
     aria_label = (if isCollapsed then Some lbl else None),
     aria_current = (if isActive then Some ''page'' else None),
     title = (if isCollapsed then Some lbl else None),
     link_to = to,
     icon_span = ico,
     label_span = (if \<not> isCollapsed then Some lbl else None)\<rparr>"

text \<open>
  What \<^verbatim>\<open>SideMenuContent\<close> returns: the \<^verbatim>\<open>nav\<close> element, the toggle button and one
  \<^verbatim>\<open>SideMenuItem\<close> per navigation item, in order. The current location is read from
  the router (\<^verbatim>\<open>useLocation\<close>) and is a parameter here.
\<close>

record side_menu =
  nav_className :: string
  toggle_aria_label :: string
  toggle_aria_expanded :: bool
  toggle_glyph :: nat
  menu_items :: "side_menu_item list"

definition SideMenuContent :: "navigation_item list \<Rightarrow> bool \<Rightarrow> string \<Rightarrow> side_menu" where
  "SideMenuContent items sidebarCollapsed pathname =
    \<lparr>nav_className = ''side-menu'' @ (if sidebarCollapsed then '' collapsed'' else ''''),
     toggle_aria_label = (if sidebarCollapsed then ''Expand menu'' else ''Collapse menu''),
     toggle_aria_expanded = (\<not> sidebarCollapsed),
     toggle_glyph = (if sidebarCollapsed then 0x25B6 else 0x25C0),
     menu_items = map (\<lambda>item.
        SideMenuItem (path item) (icon item) (label item) (pathname = path item)
          sidebarCollapsed (handleItemClick (path item))) items\<rparr>"

text \<open>
  An item is marked active when its rendered element carries \<^verbatim>\<open>aria-current="page"\<close>
  (the class \<^verbatim>\<open>active\<close> is set by the same flag). \<open>active_items\<close> pairs every
  navigation item with its rendered element and keeps the items marked active.
\<close>

definition marked_active :: "side_menu_item \<Rightarrow> bool" where
  "marked_active v = (aria_current v = Some ''page'')"

definition active_items :: "navigation_item list \<Rightarrow> bool \<Rightarrow> string \<Rightarrow> navigation_item list" where
  "active_items items sidebarCollapsed pathname =
    map fst (filter (\<lambda>(item, v). marked_active v)
      (zip items (menu_items (SideMenuContent items sidebarCollapsed pathname))))"

section \<open>Activating a menu item\<close>

text \<open>
  The element tree of a rendered item is \<^verbatim>\<open>div > Link > (icon span, label span)\<close>.
  A click or a key press has one of these elements as its target and bubbles from the
  target up to the \<^verbatim>\<open>div\<close>; the handlers the source attaches are run on the way:
  the \<^verbatim>\<open>Link\<close> has \<^verbatim>\<open>onClick={(e) => e.preventDefault()}\<close>, the \<^verbatim>\<open>div\<close> has
  \<^verbatim>\<open>onClick={onClick}\<close> and \<^verbatim>\<open>onKeyDown={handleKeyDown}\<close>. The event carries the flag
  \<^verbatim>\<open>defaultPrevented\<close>; the record also logs every callback invocation. The browser's
  default action for the event (following the anchor, scrolling on Space) and the
  router's own navigation in \<^verbatim>\<open>Link\<close> happen only when the flag is still unset.
\<close>

datatype item_element = ItemDiv | ItemLink | IconSpan | LabelSpan

datatype dom_event = Click | KeyDown string

record event_run =
  defaultPrevented :: bool
  invoked :: "callback list"

definition preventDefault :: "event_run \<Rightarrow> event_run" where
  "preventDefault r = r\<lparr>defaultPrevented := True\<rparr>"

definition invoke :: "callback \<Rightarrow> event_run \<Rightarrow> event_run" where
  "invoke k r = r\<lparr>invoked := invoked r @ [k]\<rparr>"

definition handleKeyDown :: "callback \<Rightarrow> string \<Rightarrow> event_run \<Rightarrow> event_run" where
  "handleKeyDown onClk key r =
    (if key = ''Enter'' \<or> key = '' '' then invoke onClk (preventDefault r) else r)"

fun propagation_path :: "item_element \<Rightarrow> item_element list" where
  "propagation_path ItemDiv = [ItemDiv]"
| "propagation_path ItemLink = [ItemLink, ItemDiv]"
| "propagation_path IconSpan = [IconSpan, ItemLink, ItemDiv]"
| "propagation_path LabelSpan = [LabelSpan, ItemLink, ItemDiv]"

fun handler_at :: "side_menu_item \<Rightarrow> dom_event \<Rightarrow> item_element \<Rightarrow> event_run \<Rightarrow> event_run" where
  "handler_at v Click ItemLink r = preventDefault r"
| "handler_at v Click ItemDiv r = invoke (onClick v) r"
| "handler_at v (KeyDown key) ItemDiv r = handleKeyDown (onClick v) key r"
| "handler_at v ev el r = r"

definition dispatch :: "side_menu_item \<Rightarrow> dom_event \<Rightarrow> item_element \<Rightarrow> event_run" where
  "dispatch v ev tgt =
    fold (handler_at v ev) (propagation_path tgt) \<lparr>defaultPrevented = False, invoked = []\<rparr>"

section \<open>The shell container and the document's click listener\<close>

text \<open>
  The two \<^verbatim>\<open>useState\<close> cells of \<^verbatim>\<open>App\<close>, with the updaters that
  \<^verbatim>\<open>toggleSidebar\<close> and \<^verbatim>\<open>toggleMobileMenu\<close> pass to their setters.
\<close>

record app_state =
  sidebarCollapsed :: bool
  isMobileMenuOpen :: bool

definition toggleSidebar :: "app_state \<Rightarrow> app_state" where
  "toggleSidebar s = s\<lparr>sidebarCollapsed := \<not> sidebarCollapsed s\<rparr>"

definition toggleMobileMenu :: "app_state \<Rightarrow> app_state" where
  "toggleMobileMenu s = s\<lparr>isMobileMenuOpen := \<not> isMobileMenuOpen s\<rparr>"

definition setIsMobileMenuOpen :: "bool \<Rightarrow> app_state \<Rightarrow> app_state" where
  "setIsMobileMenuOpen v s = s\<lparr>isMobileMenuOpen := v\<rparr>"

text \<open>
  The target of a click. An element is given by the \<^verbatim>\<open>class\<close> attributes of itself and
  of its ancestors, innermost first, which is all that \<^verbatim>\<open>closest('.side-menu')\<close> reads.
  \<^verbatim>\<open>event.target\<close> can also be \<^verbatim>\<open>null\<close>, or a node that is not an element (the
  document, the window) and has no method \<^verbatim>\<open>closest\<close>.
\<close>

datatype event_target = NoTarget | NonElement | Element "string list"

text \<open>
  The tokens of a \<^verbatim>\<open>class\<close> attribute are separated by ASCII whitespace: tab, line
  feed, form feed, carriage return and space. The selector \<^verbatim>\<open>.side-menu\<close> matches an
  element that has the token \<^verbatim>\<open>side-menu\<close>.
\<close>

definition ascii_whitespace :: "char \<Rightarrow> bool" where
  "ascii_whitespace c =
    (c = CHR 0x09 \<or> c = CHR 0x0A \<or> c = CHR 0x0C \<or> c = CHR 0x0D \<or> c = CHR 0x20)"

fun classList_from :: "string \<Rightarrow> string \<Rightarrow> string list" where
  "classList_from acc [] = (if acc = [] then [] else [acc])"
| "classList_from acc (c # cs) =
    (if ascii_whitespace c
     then (if acc = [] then classList_from [] cs else acc # classList_from [] cs)
     else classList_from (acc @ [c]) cs)"

definition classList :: "string \<Rightarrow> string list" where
  "classList cn = classList_from [] cn"

definition closest :: "string \<Rightarrow> string list \<Rightarrow> string option" where
  "closest cls chain = find (\<lambda>cn. cls \<in> set (classList cn)) chain"

datatype error = TypeError

text \<open>
  \<^verbatim>\<open>handleClickOutside\<close> is a closure over the value \<^verbatim>\<open>isMobileMenuOpen\<close> had in the
  render that created it. It throws when \<^verbatim>\<open>event.target.closest\<close> cannot be called
  (\<^verbatim>\<open>&&\<close> evaluates its right operand only when the left one is true); otherwise the
  result is the state update it requests: \<open>Some v\<close> for \<^verbatim>\<open>setIsMobileMenuOpen(v)\<close>,
  \<open>None\<close> for none.
\<close>

definition handleClickOutside :: "bool \<Rightarrow> event_target \<Rightarrow> error + bool option" where
  "handleClickOutside isMobileMenuOpen_captured tgt =
    (if isMobileMenuOpen_captured then
       (case tgt of
          NoTarget \<Rightarrow> Inl TypeError
        | NonElement \<Rightarrow> Inl TypeError
        | Element chain \<Rightarrow>
            (if closest ''side-menu'' chain = None then Inr (Some False) else Inr None))
     else Inr None)"

text \<open>
  The document's list of click listeners. Every closure the effect creates is a new
  function object; \<open>fn_id\<close> is its identity, which is what \<^verbatim>\<open>addEventListener\<close>
  (no second registration of the same function) and \<^verbatim>\<open>removeEventListener\<close> compare.
\<close>

record listener =
  fn_id :: nat
  captured :: bool

definition addEventListener :: "listener \<Rightarrow> listener list \<Rightarrow> listener list" where
  "addEventListener h ls = (if list_ex (\<lambda>k. fn_id k = fn_id h) ls then ls else ls @ [h])"

definition removeEventListener :: "listener \<Rightarrow> listener list \<Rightarrow> listener list" where
  "removeEventListener h ls = filter (\<lambda>k. fn_id k \<noteq> fn_id h) ls"

text \<open>
  A mounted \<^verbatim>\<open>App\<close>: its state and the handler that the last run of the first effect
  registered (the effect's cleanup holds it; its captured value is the dependency
  \<^verbatim>\<open>[isMobileMenuOpen]\<close> of that run). The world is the document's listeners, the
  allocator of function identities and the mounted instance, if any.
\<close>

record mounted_app =
  state :: app_state
  registered :: listener

record world =
  document_listeners :: "listener list"
  next_fn :: nat
  app :: "mounted_app option"

definition initial_world :: world where
  "initial_world = \<lparr>document_listeners = [], next_fn = 0, app = None\<rparr>"

definition effect_click_outside :: "bool \<Rightarrow> world \<Rightarrow> listener \<times> world" where
  "effect_click_outside isOpen w =
    (let h = \<lparr>fn_id = next_fn w, captured = isOpen\<rparr>
     in (h, w\<lparr>document_listeners := addEventListener h (document_listeners w),
              next_fn := Suc (next_fn w)\<rparr>))"

definition cleanup_click_outside :: "listener \<Rightarrow> world \<Rightarrow> world" where
  "cleanup_click_outside h w =
    w\<lparr>document_listeners := removeEventListener h (document_listeners w)\<rparr>"

text \<open>
  A commit of the state \<open>s\<close>: the first effect has the dependency
  \<^verbatim>\<open>[isMobileMenuOpen]\<close>, so its cleanup and its body run again exactly when that value
  differs from the one of its last run.
\<close>

definition commit :: "app_state \<Rightarrow> world \<Rightarrow> world" where
  "commit s w =
    (case app w of
       None \<Rightarrow> w
     | Some m \<Rightarrow>
        (if isMobileMenuOpen s = captured (registered m) then w\<lparr>app := Some (m\<lparr>state := s\<rparr>)\<rparr>
         else
           (let (h, w') = effect_click_outside (isMobileMenuOpen s)
                            (cleanup_click_outside (registered m) w)
            in w'\<lparr>app := Some \<lparr>state = s, registered = h\<rparr>\<rparr>)))"

text \<open>
  Mounting: both cells start at \<^verbatim>\<open>false\<close>, the first effect registers its listener, and
  the second effect (no dependencies, so it runs once) calls
  \<^verbatim>\<open>setIsMobileMenuOpen(false)\<close>. Unmounting runs the cleanup of the first effect.
\<close>

definition mount :: "world \<Rightarrow> world" where
  "mount w =
    (let s0 = \<lparr>sidebarCollapsed = False, isMobileMenuOpen = False\<rparr>;
         (h, w') = effect_click_outside (isMobileMenuOpen s0) w
     in commit (setIsMobileMenuOpen False s0) (w'\<lparr>app := Some \<lparr>state = s0, registered = h\<rparr>\<rparr>))"

definition unmount :: "world \<Rightarrow> world" where
  "unmount w =
    (case app w of
       None \<Rightarrow> w
     | Some m \<Rightarrow> (cleanup_click_outside (registered m) w)\<lparr>app := None\<rparr>)"

text \<open>
  A click that reaches the document calls every registered listener in order; the state
  updates they request are applied in order and committed together. An exception thrown
  by a listener is uncaught; it ends the step, and a run, with that error.
\<close>

fun call_listeners :: "listener list \<Rightarrow> event_target \<Rightarrow> error + bool list" where
  "call_listeners [] tgt = Inr []"
| "call_listeners (h # hs) tgt =
    (case handleClickOutside (captured h) tgt of
       Inl e \<Rightarrow> Inl e
     | Inr u \<Rightarrow>
        (case call_listeners hs tgt of
           Inl e \<Rightarrow> Inl e
         | Inr us \<Rightarrow> Inr ((case u of None \<Rightarrow> [] | Some v \<Rightarrow> [v]) @ us)))"

text \<open>
  The events: mounting and unmounting \<^verbatim>\<open>App\<close>, a call of \<^verbatim>\<open>toggleSidebar\<close> (the
  \<^verbatim>\<open>onClick\<close> of the toggle button), a call of \<^verbatim>\<open>toggleMobileMenu\<close> (which \<^verbatim>\<open>App\<close>
  defines and hands to no element), and a click arriving at the document. A state change
  and the effects of the render that follows it are one step.
\<close>

datatype event = Mount | Unmount | ToggleSidebar | ToggleMobileMenu | DocumentClick event_target

fun step :: "event \<Rightarrow> world \<Rightarrow> error + world" where
  "step Mount w = (case app w of None \<Rightarrow> Inr (mount w) | Some m \<Rightarrow> Inr w)"
| "step Unmount w = Inr (unmount w)"
| "step ToggleSidebar w =
    (case app w of None \<Rightarrow> Inr w | Some m \<Rightarrow> Inr (commit (toggleSidebar (state m)) w))"
| "step ToggleMobileMenu w =
    (case app w of None \<Rightarrow> Inr w | Some m \<Rightarrow> Inr (commit (toggleMobileMenu (state m)) w))"
| "step (DocumentClick tgt) w =
    (case call_listeners (document_listeners w) tgt of
       Inl e \<Rightarrow> Inl e
     | Inr us \<Rightarrow>
        (case app w of
           None \<Rightarrow> Inr w
         | Some m \<Rightarrow> Inr (commit (fold setIsMobileMenuOpen us (state m)) w)))"

fun run :: "event list \<Rightarrow> world \<Rightarrow> error + world" where
  "run [] w = Inr w"
| "run (e # es) w = (case step e w of Inl err \<Rightarrow> Inl err | Inr w' \<Rightarrow> run es w')"

text \<open>
  What holds of every world the events can produce: the document has no click listener
  while no \<^verbatim>\<open>App\<close> is mounted, and while one is mounted it has exactly the handler of
  the last effect run, whose captured value is the current \<^verbatim>\<open>isMobileMenuOpen\<close>.
\<close>

definition wf_world :: "world \<Rightarrow> bool" where
  "wf_world w =
    (case app w of
       None \<Rightarrow> document_listeners w = []
     | Some m \<Rightarrow> document_listeners w = [registered m] \<and>
                 captured (registered m) = isMobileMenuOpen (state m))"

section \<open>The container runner script\<close>

text \<open>
  The shell script runs under \<^verbatim>\<open>set -e\<close>. The environment gives the exit status of
  every command the script runs (0 is success); the same command gives the same status
  throughout one run. A function of the script either lets the script go on (\<open>Inr\<close>) or
  ends it with an exit status (\<open>Inl\<close>).

  Every \<^verbatim>\<open>echo\<close> is a command too: it fails when standard output cannot be written
  (status 1 when it is closed; a write to a broken pipe ends the shell by SIGPIPE, which
  its caller sees as status 141), and under \<^verbatim>\<open>set -e\<close> a failing \<^verbatim>\<open>echo\<close> ends the
  script. \<open>Echo l\<close> is the \<^verbatim>\<open>echo\<close>, or the call of one of the four \<^verbatim>\<open>print_\<close>
  functions (each is one \<^verbatim>\<open>echo -e\<close>), at line \<open>l\<close> of the source file; no line is
  run twice, so every write has its own status.
\<close>

datatype engine = Docker | Podman

datatype command =
    CommandV engine
  | Info engine
  | Mkdir string
  | Chmod string
  | Chown
  | TestDirData
  | Build engine
  | PsGrep engine
  | Stop engine
  | Rm engine
  | RunContainer engine
  | PsFilter engine
  | Logs engine
  | Echo nat

type_synonym environment = "command \<Rightarrow> nat"

definition errexit :: "environment \<Rightarrow> command \<Rightarrow> nat + unit" where
  "errexit env c = (if env c = 0 then Inr () else Inl (env c))"

definition and_then :: "nat + 'a \<Rightarrow> ('a \<Rightarrow> nat + 'b) \<Rightarrow> nat + 'b" where
  "and_then r f = (case r of Inl status \<Rightarrow> Inl status | Inr x \<Rightarrow> f x)"

fun echo_lines :: "environment \<Rightarrow> nat list \<Rightarrow> nat + unit" where
  "echo_lines env [] = Inr ()"
| "echo_lines env (l # ls) = and_then (errexit env (Echo l)) (\<lambda>_. echo_lines env ls)"

definition print_status :: "environment \<Rightarrow> nat \<Rightarrow> nat + unit" where
  "print_status env l = errexit env (Echo l)"

definition print_success :: "environment \<Rightarrow> nat \<Rightarrow> nat + unit" where
  "print_success env l = errexit env (Echo l)"

definition print_warning :: "environment \<Rightarrow> nat \<Rightarrow> nat + unit" where
  "print_warning env l = errexit env (Echo l)"

definition print_error :: "environment \<Rightarrow> nat \<Rightarrow> nat + unit" where
  "print_error env l = errexit env (Echo l)"

definition detect_container_runtime :: "environment \<Rightarrow> nat + engine" where
  "detect_container_runtime env =
    (if env (CommandV Docker) = 0 \<and> env (Info Docker) = 0 then
       and_then (print_success env 240) (\<lambda>_. Inr Docker)
     else if env (CommandV Podman) = 0 \<and> env (Info Podman) = 0 then
       and_then (print_success env 243) (\<lambda>_. Inr Podman)
     else
       and_then (print_error env 245) (\<lambda>_.
       and_then (print_error env 246) (\<lambda>_. Inl 1)))"

definition check_container_runtime :: "environment \<Rightarrow> nat + engine" where
  "check_container_runtime env =
    and_then (detect_container_runtime env) (\<lambda>e.
      if env (Info e) \<noteq> 0 then
        and_then (print_error env 256) (\<lambda>_.
        and_then (print_error env 257) (\<lambda>_. Inl 1))
      else and_then (print_success env 261) (\<lambda>_. Inr e))"

definition create_directories :: "environment \<Rightarrow> nat + unit" where
  "create_directories env =
    and_then (print_status env 266) (\<lambda>_.
    and_then (errexit env (Mkdir ''data/configs'')) (\<lambda>_.
    and_then (errexit env (Mkdir ''data/operations'')) (\<lambda>_.
    and_then (errexit env (Mkdir ''data/logs'')) (\<lambda>_.
    and_then (errexit env (Mkdir ''data/cache'')) (\<lambda>_.
    and_then (print_status env 274) (\<lambda>_.
    and_then (errexit env (Chmod ''755'')) (\<lambda>_.
    and_then
      (if env Chown = 0 then Inr ()
       else and_then (print_warning env 277) (\<lambda>_. errexit env (Chmod ''777''))) (\<lambda>_.
    print_success env 282))))))))"

definition fix_permissions :: "environment \<Rightarrow> nat + unit" where
  "fix_permissions env =
    and_then (print_status env 358) (\<lambda>_.
    if env TestDirData = 0 then
      (if env Chown = 0 then
         and_then (errexit env (Chmod ''755'')) (\<lambda>_. print_success env 364)
       else
         and_then (print_warning env 366) (\<lambda>_.
         and_then (errexit env (Chmod ''777'')) (\<lambda>_. print_success env 368)))
    else Inr ())"

definition build_image :: "environment \<Rightarrow> engine \<Rightarrow> nat + unit" where
  "build_image env e =
    and_then (print_status env 287) (\<lambda>_.
    if e = Podman \<or> e = Docker then
      (if env (Build e) = 0 then print_success env 292
       else and_then (print_error env 294) (\<lambda>_. Inl 1))
    else and_then (print_error env 298) (\<lambda>_. Inl 1))"

definition run_container :: "environment \<Rightarrow> engine \<Rightarrow> nat + unit" where
  "run_container env e =
    and_then (print_status env 305) (\<lambda>_.
    and_then
      (if env (PsGrep e) = 0 then
         and_then (print_warning env 309) (\<lambda>_.
         and_then (errexit env (Stop e)) (\<lambda>_. errexit env (Rm e)))
       else Inr ()) (\<lambda>_.
    and_then (errexit env (RunContainer e)) (\<lambda>_.
    print_success env 326)))"

definition show_status :: "environment \<Rightarrow> engine \<Rightarrow> nat + unit" where
  "show_status env e =
    and_then (echo_lines env [331, 332, 333, 334, 335]) (\<lambda>_.
    and_then (print_success env 336) (\<lambda>_.
    and_then (echo_lines env [337, 338, 339, 340, 341, 342, 343, 344, 345]) (\<lambda>_.
    and_then (errexit env (PsFilter e)) (\<lambda>_.
    echo_lines env [347, 348, 349, 350, 351, 352, 353]))))"

definition main :: "environment \<Rightarrow> nat + unit" where
  "main env =
    and_then (echo_lines env [375, 376, 377, 378, 379]) (\<lambda>_.
    and_then (check_container_runtime env) (\<lambda>e.
    and_then (create_directories env) (\<lambda>_.
    and_then (fix_permissions env) (\<lambda>_.
    and_then (build_image env e) (\<lambda>_.
    and_then (run_container env e) (\<lambda>_.
    show_status env e))))))"

text \<open>
  The \<^verbatim>\<open>case "${1:-}"\<close> at the end of the script: it reads the first argument only (the
  empty string when there is none), so the script is invoked with \<^verbatim>\<open>--help\<close> when that
  is its first argument. \<open>exit_status\<close> is the status the script ends with: that of
  an \<^verbatim>\<open>exit\<close> or of the command that ended it, or 0 when its last command has
  succeeded. Under \<^verbatim>\<open>--stop\<close> the two engine commands are followed by \<^verbatim>\<open>|| true\<close>, so
  their status has no effect.
\<close>

definition first_argument :: "string list \<Rightarrow> string" where
  "first_argument args = (case args of [] \<Rightarrow> [] | a # _ \<Rightarrow> a)"

definition script :: "environment \<Rightarrow> string list \<Rightarrow> nat + unit" where
  "script env args =
    (let a = first_argument args in
     if a = ''--help'' \<or> a = ''-h'' then
       and_then (echo_lines env [392, 393, 394, 395, 396, 397, 398, 399, 400, 401, 402, 403,
         404, 405, 406, 407, 408, 409, 410]) (\<lambda>_. Inl 0)
     else if a = ''--build-only'' then
       and_then (check_container_runtime env) (\<lambda>e.
       and_then (build_image env e) (\<lambda>_.
       and_then (print_success env 416) (\<lambda>_. Inl 0)))
     else if a = ''--run-only'' then
       and_then (check_container_runtime env) (\<lambda>e.
       and_then (run_container env e) (\<lambda>_.
       and_then (show_status env e) (\<lambda>_. Inl 0)))
     else if a = ''--stop'' then
       and_then (detect_container_runtime env) (\<lambda>e.
       and_then (print_status env 427) (\<lambda>_.
       and_then (print_success env 430) (\<lambda>_. Inl 0)))
     else if a = ''--logs'' then
       and_then (detect_container_runtime env) (\<lambda>e.
       and_then (errexit env (Logs e)) (\<lambda>_. Inl 0))
     else if a = ''--engine'' then
       and_then (detect_container_runtime env) (\<lambda>e.
       and_then (errexit env (Echo 440)) (\<lambda>_. Inl 0))
     else main env)"

definition exit_status :: "environment \<Rightarrow> string list \<Rightarrow> nat" where
  "exit_status env args = (case script env args of Inl status \<Rightarrow> status | Inr _ \<Rightarrow> 0)"

definition engine_usable :: "environment \<Rightarrow> engine \<Rightarrow> bool" where
  "engine_usable env e = (env (CommandV e) = 0 \<and> env (Info e) = 0)"

definition stdout_writable :: "environment \<Rightarrow> bool" where
  "stdout_writable env = (\<forall>l. env (Echo l) = 0)"

text \<open>
  Environments to run the script in. On the first, standard output can be written and
  every other command ends with status 127 (the shell's status for a command that is not
  found); on the second every command succeeds. On the third every command succeeds but
  standard output is closed (\<^verbatim>\<open>>&-\<close>), so every \<^verbatim>\<open>echo\<close> has status 1; on the fourth
  nothing is installed and standard output is a pipe whose reader has gone.
\<close>

definition nothing_installed :: environment where
  "nothing_installed c = (case c of Echo l \<Rightarrow> 0 | _ \<Rightarrow> 127)"

definition all_succeed :: environment where
  "all_succeed c = 0"

definition stdout_closed :: environment where
  "stdout_closed c = (case c of Echo l \<Rightarrow> 1 | _ \<Rightarrow> 0)"

definition nothing_installed_broken_pipe :: environment where
  "nothing_installed_broken_pipe c = (case c of Echo l \<Rightarrow> 141 | _ \<Rightarrow> 127)"

section \<open>Active item\<close>

lemma marked_active_SideMenuItem:
  "marked_active (SideMenuItem to ico lbl a c k) = a"
  by (simp add: marked_active_def SideMenuItem_def)

lemma zip_map_filter_fst:
  "map fst (filter (\<lambda>(x, y). P y) (zip xs (map f xs))) = filter (\<lambda>x. P (f x)) xs"
  by (induction xs) simp_all

lemma active_items_filter:
  "active_items items c loc = filter (\<lambda>item. loc = path item) items"
  unfolding active_items_def SideMenuContent_def
  by (simp add: zip_map_filter_fst marked_active_SideMenuItem)

lemma filter_key_distinct:
  "distinct (map f xs) \<Longrightarrow> length (filter (\<lambda>x. a = f x) xs) \<le> Suc 0"
proof (induction xs)
  case Nil
  then show ?case by simp
next
  case (Cons x xs)
  show ?case
  proof (cases "a = f x")
    case True
    with Cons.prems have "\<forall>y\<in>set xs. a \<noteq> f y" by auto
    then have "filter (\<lambda>x. a = f x) xs = []" by (simp add: filter_empty_conv)
    with True show ?thesis by simp
  next
    case False
    with Cons show ?thesis by simp
  qed
qed

lemma navigationItems_distinct: "distinct (map path navigationItems)"
  by (simp add: navigationItems_def)

text \<open>
  Claim C1. When the location's path equals the path of exactly one navigation item,
  that item and no other is marked active; when it equals no item's path (a prefix or a
  partial match is not equality) no item is marked active; and the registry of the
  application, whose paths are pairwise different, never has more than one active item.
\<close>

theorem active_item_exact_match:
  "(filter (\<lambda>i. path i = loc) items = [item] \<longrightarrow> active_items items c loc = [item]) \<and>
   ((\<forall>i\<in>set items. path i \<noteq> loc) \<longrightarrow> active_items items c loc = []) \<and>
   (distinct (map path items) \<longrightarrow> length (active_items items c loc) \<le> 1) \<and>
   length (active_items navigationItems c loc) \<le> 1"
proof -
  have eq: "(\<lambda>i. loc = path i) = (\<lambda>i. path i = loc)" by auto
  have a: "filter (\<lambda>i. path i = loc) items = [item] \<longrightarrow> active_items items c loc = [item]"
    by (simp add: active_items_filter eq)
  have b: "(\<forall>i\<in>set items. path i \<noteq> loc) \<longrightarrow> active_items items c loc = []"
    by (auto simp: active_items_filter filter_empty_conv)
  have d: "distinct (map path xs) \<longrightarrow> length (active_items xs c loc) \<le> 1" for xs
    using filter_key_distinct [of path xs loc] by (simp add: active_items_filter)
  from a b d [of items] d [of navigationItems] navigationItems_distinct
  show ?thesis by blast
qed

theorem active_item_exact_match_witness:
  "active_items navigationItems False ''/config'' = [navigationItems ! 1] \<and>
   active_items navigationItems True ''/config/x'' = [] \<and>
   active_items navigationItems False ''/conf'' = [] \<and>
   length (active_items navigationItems False ''/'') \<le> 1"
proof -
  have one: "filter (\<lambda>i. path i = ''/config'') navigationItems = [navigationItems ! 1]"
    by (simp add: navigationItems_def)
  have none1: "\<forall>i\<in>set navigationItems. path i \<noteq> ''/config/x''"
    by (simp add: navigationItems_def)
  have none2: "\<forall>i\<in>set navigationItems. path i \<noteq> ''/conf''"
    by (simp add: navigationItems_def)
  from one none1 none2
    active_item_exact_match [of "''/config''" navigationItems "navigationItems ! 1" False]
    active_item_exact_match [of "''/config/x''" navigationItems _ True]
    active_item_exact_match [of "''/conf''" navigationItems _ False]
    active_item_exact_match [of "''/''" navigationItems _ False]
  show ?thesis by blast
qed

section \<open>Keyboard and pointer activation\<close>

text \<open>
  Claim C2. A click on any element of a menu item, and a key press of Enter or Space on
  any of them, invokes the item's callback exactly once. The key press prevents the
  default action (the scroll on Space), and a click that passes through the link has its
  default prevented, so neither the anchor nor the router's \<^verbatim>\<open>Link\<close> navigates by
  itself. The callback of a rendered item is the \<^verbatim>\<open>onClick\<close> it was given.
\<close>

theorem item_activation_once:
  "invoked (dispatch v Click tgt) = [onClick v] \<and>
   (tgt \<noteq> ItemDiv \<longrightarrow> defaultPrevented (dispatch v Click tgt)) \<and>
   (key = ''Enter'' \<or> key = '' '' \<longrightarrow>
      invoked (dispatch v (KeyDown key) tgt) = [onClick v] \<and>
      defaultPrevented (dispatch v (KeyDown key) tgt)) \<and>
   onClick (SideMenuItem to ico lbl a c k) = k"
  by (cases tgt)
    (auto simp: dispatch_def preventDefault_def invoke_def handleKeyDown_def SideMenuItem_def)

theorem item_activation_once_witness:
  "invoked (dispatch (SideMenuItem ''/config'' [0x2699, 0xFE0F] ''Mirror Configuration''
      False False (handleItemClick ''/config'')) Click IconSpan) = [[SetLocationHref ''/config'']] \<and>
   defaultPrevented (dispatch (SideMenuItem ''/config'' [0x2699, 0xFE0F] ''Mirror Configuration''
      False False (handleItemClick ''/config'')) Click IconSpan) \<and>
   invoked (dispatch (SideMenuItem ''/config'' [0x2699, 0xFE0F] ''Mirror Configuration''
      False False (handleItemClick ''/config'')) (KeyDown '' '') IconSpan)
     = [[SetLocationHref ''/config'']] \<and>
   defaultPrevented (dispatch (SideMenuItem ''/config'' [0x2699, 0xFE0F] ''Mirror Configuration''
      False False (handleItemClick ''/config'')) (KeyDown '' '') IconSpan)"
  using item_activation_once [of "SideMenuItem ''/config'' [0x2699, 0xFE0F]
      ''Mirror Configuration'' False False (handleItemClick ''/config'')" IconSpan "'' ''"
      "''/config''" "[0x2699, 0xFE0F]" "''Mirror Configuration''" False False
      "handleItemClick ''/config''"]
  by (simp add: handleItemClick_def)

section \<open>Collapsing the side menu\<close>

text \<open>
  Claim C5. When \<^verbatim>\<open>toggleSidebar\<close> takes the collapsed flag from false to true, the
  label span of every item, rendered before, is no longer rendered, while the label is
  the item's \<^verbatim>\<open>aria-label\<close> and \<^verbatim>\<open>title\<close>; \<^verbatim>\<open>aria-expanded\<close> of the toggle button
  goes from true to false; and the active items are the same as before.
\<close>

theorem collapse_hides_labels:
  "\<not> sidebarCollapsed s \<Longrightarrow>
   (\<forall>i < length items.
      label_span (menu_items (SideMenuContent items (sidebarCollapsed s) loc) ! i)
        = Some (label (items ! i)) \<and>
      label_span (menu_items (SideMenuContent items (sidebarCollapsed (toggleSidebar s)) loc) ! i)
        = None \<and>
      aria_label (menu_items (SideMenuContent items (sidebarCollapsed (toggleSidebar s)) loc) ! i)
        = Some (label (items ! i)) \<and>
      title (menu_items (SideMenuContent items (sidebarCollapsed (toggleSidebar s)) loc) ! i)
        = Some (label (items ! i))) \<and>
   toggle_aria_expanded (SideMenuContent items (sidebarCollapsed s) loc) \<and>
   \<not> toggle_aria_expanded (SideMenuContent items (sidebarCollapsed (toggleSidebar s)) loc) \<and>
   active_items items (sidebarCollapsed (toggleSidebar s)) loc
     = active_items items (sidebarCollapsed s) loc \<and>
   isMobileMenuOpen (toggleSidebar s) = isMobileMenuOpen s"
  by (simp add: SideMenuContent_def SideMenuItem_def toggleSidebar_def active_items_filter)

theorem collapse_hides_labels_witness:
  "\<not> sidebarCollapsed \<lparr>sidebarCollapsed = False, isMobileMenuOpen = False\<rparr> \<and>
   map label_span (menu_items (SideMenuContent navigationItems
     (sidebarCollapsed (toggleSidebar \<lparr>sidebarCollapsed = False, isMobileMenuOpen = False\<rparr>))
     ''/history'')) = [None, None, None, None, None] \<and>
   \<not> toggle_aria_expanded (SideMenuContent navigationItems
     (sidebarCollapsed (toggleSidebar \<lparr>sidebarCollapsed = False, isMobileMenuOpen = False\<rparr>))
     ''/history'') \<and>
   active_items navigationItems
     (sidebarCollapsed (toggleSidebar \<lparr>sidebarCollapsed = False, isMobileMenuOpen = False\<rparr>))
     ''/history'' = active_items navigationItems False ''/history''"
  using collapse_hides_labels
    [of "\<lparr>sidebarCollapsed = False, isMobileMenuOpen = False\<rparr>" navigationItems "''/history''"]
  by (simp add: navigationItems_def SideMenuContent_def SideMenuItem_def toggleSidebar_def)

section \<open>The listener invariant\<close>

lemmas world_defs = initial_world_def mount_def unmount_def commit_def effect_click_outside_def
  cleanup_click_outside_def addEventListener_def removeEventListener_def Let_def
  setIsMobileMenuOpen_def toggleMobileMenu_def toggleSidebar_def handleClickOutside_def
  closest_def classList_def ascii_whitespace_def

lemma wf_initial: "wf_world initial_world"
  by (simp add: wf_world_def initial_world_def)

lemma wf_commit: "wf_world w \<Longrightarrow> wf_world (commit s w)"
  by (auto simp: wf_world_def commit_def effect_click_outside_def cleanup_click_outside_def
      addEventListener_def removeEventListener_def Let_def split: option.splits)

lemma wf_mount: "wf_world w \<Longrightarrow> app w = None \<Longrightarrow> wf_world (mount w)"
  by (auto simp: wf_world_def mount_def commit_def effect_click_outside_def
      addEventListener_def Let_def setIsMobileMenuOpen_def split: option.splits)

lemma wf_unmount: "wf_world w \<Longrightarrow> wf_world (unmount w)"
  by (auto simp: wf_world_def unmount_def cleanup_click_outside_def
      removeEventListener_def split: option.splits)

lemma wf_step: "wf_world w \<Longrightarrow> step e w = Inr w' \<Longrightarrow> wf_world w'"
  by (cases e) (auto simp: wf_mount wf_unmount wf_commit split: option.splits sum.splits)

lemma wf_run: "wf_world w \<Longrightarrow> run evs w = Inr w' \<Longrightarrow> wf_world w'"
  by (induction evs arbitrary: w) (auto split: sum.splits dest: wf_step)

lemma reachable_wf: "run evs initial_world = Inr w \<Longrightarrow> wf_world w"
  using wf_run [OF wf_initial] .

lemma side_menu_class:
  "''side-menu'' \<in> set (classList (nav_className (SideMenuContent items c loc)))"
  by (simp add: SideMenuContent_def classList_def ascii_whitespace_def)

lemma closest_inside:
  "nav_className (SideMenuContent items c loc) \<in> set chain \<Longrightarrow>
   closest ''side-menu'' chain \<noteq> None"
  unfolding closest_def find_None_iff using side_menu_class by blast

text \<open>Class tokens separated by a tab are found as well.\<close>

lemma closest_tab_separated:
  "closest ''side-menu'' [''child'', ''panel'' @ [CHR 0x09] @ ''side-menu'']
     = Some (''panel'' @ [CHR 0x09] @ ''side-menu'') \<and>
   handleClickOutside True (Element [''child'', ''panel'' @ [CHR 0x09] @ ''side-menu''])
     = Inr None"
  by (simp add: handleClickOutside_def closest_def classList_def ascii_whitespace_def)

lemma commit_same:
  "wf_world w \<Longrightarrow> app w = Some m \<Longrightarrow> commit (state m) w = w"
  by (simp add: commit_def wf_world_def)

lemma commit_state:
  "app w = Some m \<Longrightarrow> \<exists>m'. app (commit s w) = Some m' \<and> state m' = s"
  by (simp add: commit_def effect_click_outside_def cleanup_click_outside_def Let_def)

lemma click_outside_open:
  assumes "wf_world w" "app w = Some m" "isMobileMenuOpen (state m)"
    "closest ''side-menu'' chain = None"
  shows "step (DocumentClick (Element chain)) w
    = Inr (commit (setIsMobileMenuOpen False (state m)) w)"
  using assms by (simp add: wf_world_def handleClickOutside_def)

lemma click_inside:
  assumes "wf_world w" "app w = Some m" "closest ''side-menu'' chain \<noteq> None"
  shows "step (DocumentClick (Element chain)) w = Inr w"
  using assms commit_same [OF assms(1,2)] by (auto simp add: wf_world_def handleClickOutside_def)

lemma click_closed:
  assumes "wf_world w" "app w = Some m" "\<not> isMobileMenuOpen (state m)"
  shows "step (DocumentClick tgt) w = Inr w"
  using assms commit_same [OF assms(1,2)] by (simp add: wf_world_def handleClickOutside_def)

lemma click_not_element_open:
  assumes "wf_world w" "app w = Some m" "isMobileMenuOpen (state m)"
    "tgt = NoTarget \<or> tgt = NonElement"
  shows "step (DocumentClick tgt) w = Inl TypeError"
  using assms by (auto simp add: wf_world_def handleClickOutside_def)

lemma click_outside_closes:
  assumes wf: "wf_world w" and m: "app w = Some m" and op: "isMobileMenuOpen (state m)"
    and out: "closest ''side-menu'' chain = None"
  shows "\<exists>w' m'. step (DocumentClick (Element chain)) w = Inr w' \<and> app w' = Some m' \<and>
    \<not> isMobileMenuOpen (state m') \<and> sidebarCollapsed (state m') = sidebarCollapsed (state m)"
  using click_outside_open [OF wf m op out]
    commit_state [OF m, of "setIsMobileMenuOpen False (state m)"]
  by (auto simp: setIsMobileMenuOpen_def)

text \<open>
  A step between two mounted states that changes \<^verbatim>\<open>isMobileMenuOpen\<close> is the toggle, or
  a click on an element outside the panel while the menu is open.
\<close>

lemma step_changes_open:
  assumes wf: "wf_world w" and m: "app w = Some m" and st: "step e w = Inr w'"
    and m': "app w' = Some m'"
    and ch: "isMobileMenuOpen (state m') \<noteq> isMobileMenuOpen (state m)"
  shows "e = ToggleMobileMenu \<or>
     (isMobileMenuOpen (state m) \<and>
       (\<exists>chain. e = DocumentClick (Element chain) \<and> closest ''side-menu'' chain = None))"
proof (cases e)
  case Mount
  with m st m' ch show ?thesis by simp
next
  case Unmount
  with m st m' show ?thesis by (auto simp add: unmount_def)
next
  case ToggleSidebar
  with m st have "w' = commit (toggleSidebar (state m)) w" by simp
  with commit_state [OF m, of "toggleSidebar (state m)"] m' ch show ?thesis
    by (auto simp: toggleSidebar_def)
next
  case ToggleMobileMenu
  then show ?thesis by simp
next
  case (DocumentClick tgt)
  show ?thesis
  proof (cases "isMobileMenuOpen (state m)")
    case False
    from click_closed [OF wf m False, of tgt] st DocumentClick have "w' = w" by simp
    with m m' ch show ?thesis by simp
  next
    case True
    show ?thesis
    proof (cases tgt)
      case NoTarget
      with click_not_element_open [OF wf m True, of tgt] st DocumentClick show ?thesis by simp
    next
      case NonElement
      with click_not_element_open [OF wf m True, of tgt] st DocumentClick show ?thesis by simp
    next
      case (Element chain)
      show ?thesis
      proof (cases "closest ''side-menu'' chain = None")
        case True
        with \<open>isMobileMenuOpen (state m)\<close> DocumentClick Element show ?thesis by simp
      next
        case False
        from click_inside [OF wf m False] st DocumentClick Element have "w' = w" by simp
        with m m' ch show ?thesis by simp
      qed
    qed
  qed
qed

section \<open>Mounting\<close>

text \<open>
  Claim C4. Whatever the world was before (its listeners, an earlier instance and the
  state that instance had), the instance that mounting creates has
  \<^verbatim>\<open>isMobileMenuOpen\<close> false and \<^verbatim>\<open>sidebarCollapsed\<close> false.
\<close>

theorem mount_defaults:
  "\<exists>m. app (mount w) = Some m \<and> \<not> isMobileMenuOpen (state m) \<and> \<not> sidebarCollapsed (state m)"
  by (simp add: mount_def commit_def effect_click_outside_def Let_def setIsMobileMenuOpen_def)

theorem mount_defaults_witness:
  "app (mount \<lparr>document_listeners = [\<lparr>fn_id = 0, captured = True\<rparr>], next_fn = 1,
      app = Some \<lparr>state = \<lparr>sidebarCollapsed = True, isMobileMenuOpen = True\<rparr>,
                  registered = \<lparr>fn_id = 0, captured = True\<rparr>\<rparr>\<rparr>)
   = Some \<lparr>state = \<lparr>sidebarCollapsed = False, isMobileMenuOpen = False\<rparr>,
           registered = \<lparr>fn_id = 1, captured = False\<rparr>\<rparr>"
  using mount_defaults [of "\<lparr>document_listeners = [\<lparr>fn_id = 0, captured = True\<rparr>], next_fn = 1,
      app = Some \<lparr>state = \<lparr>sidebarCollapsed = True, isMobileMenuOpen = True\<rparr>,
                  registered = \<lparr>fn_id = 0, captured = True\<rparr>\<rparr>\<rparr>"]
  by (simp add: world_defs)

section \<open>The document's click listener\<close>

text \<open>
  Claim C6. In every world that a sequence of events produces from the initial one, the
  document has exactly one click listener while the \<^verbatim>\<open>App\<close> is mounted, the handler of
  the last effect run, and none while it is not: nothing is left after an unmount, and a
  second mount starts from an empty list.
\<close>

theorem one_click_listener:
  "run evs initial_world = Inr w \<Longrightarrow>
   document_listeners w = (case app w of None \<Rightarrow> [] | Some m \<Rightarrow> [registered m]) \<and>
   length (document_listeners w) = (if app w = None then 0 else 1)"
  using reachable_wf [of evs w] by (auto simp: wf_world_def split: option.splits)

theorem one_click_listener_witness:
  "run [Mount, ToggleMobileMenu, Unmount, Mount, Unmount] initial_world =
     Inr \<lparr>document_listeners = [], next_fn = 3, app = None\<rparr> \<and>
   run [Mount, ToggleMobileMenu, Unmount, Mount] initial_world =
     Inr \<lparr>document_listeners = [\<lparr>fn_id = 2, captured = False\<rparr>], next_fn = 3,
          app = Some \<lparr>state = \<lparr>sidebarCollapsed = False, isMobileMenuOpen = False\<rparr>,
                      registered = \<lparr>fn_id = 2, captured = False\<rparr>\<rparr>\<rparr> \<and>
   length (document_listeners \<lparr>document_listeners = [\<lparr>fn_id = 2, captured = False\<rparr>],
          next_fn = 3,
          app = Some \<lparr>state = \<lparr>sidebarCollapsed = False, isMobileMenuOpen = False\<rparr>,
                      registered = \<lparr>fn_id = 2, captured = False\<rparr>\<rparr>\<rparr>) = 1"
proof -
  have r1: "run [Mount, ToggleMobileMenu, Unmount, Mount, Unmount] initial_world =
     Inr \<lparr>document_listeners = [], next_fn = 3, app = None\<rparr>"
    by (simp add: world_defs)
  have r2: "run [Mount, ToggleMobileMenu, Unmount, Mount] initial_world =
     Inr \<lparr>document_listeners = [\<lparr>fn_id = 2, captured = False\<rparr>], next_fn = 3,
          app = Some \<lparr>state = \<lparr>sidebarCollapsed = False, isMobileMenuOpen = False\<rparr>,
                      registered = \<lparr>fn_id = 2, captured = False\<rparr>\<rparr>\<rparr>"
    by (simp add: world_defs)
  from r1 r2 one_click_listener [OF r1] one_click_listener [OF r2] show ?thesis by simp
qed

section \<open>The mobile menu\<close>

text \<open>
  Claim C3. In a reachable world with a mounted \<^verbatim>\<open>App\<close>: a click on an element with no
  \<^verbatim>\<open>.side-menu\<close> ancestor closes an open menu, and a click on an element inside the
  rendered panel changes nothing; \<^verbatim>\<open>toggleMobileMenu\<close> flips the state; a step that
  changes \<^verbatim>\<open>isMobileMenuOpen\<close> is the toggle, or, from the open state only, a click
  outside the panel; and mounting leaves the menu closed.
\<close>

theorem mobile_menu_transitions:
  assumes reach: "run evs initial_world = Inr w" and m: "app w = Some m"
  shows
   "(isMobileMenuOpen (state m) \<and> closest ''side-menu'' chain = None \<longrightarrow>
       (\<exists>w' m'. step (DocumentClick (Element chain)) w = Inr w' \<and> app w' = Some m' \<and>
          \<not> isMobileMenuOpen (state m'))) \<and>
    (nav_className (SideMenuContent items c loc) \<in> set inside \<longrightarrow>
       step (DocumentClick (Element inside)) w = Inr w) \<and>
    (\<exists>w' m'. step ToggleMobileMenu w = Inr w' \<and> app w' = Some m' \<and>
          isMobileMenuOpen (state m') = (\<not> isMobileMenuOpen (state m))) \<and>
    (step e w = Inr w2 \<and> app w2 = Some m2 \<and>
       isMobileMenuOpen (state m2) \<noteq> isMobileMenuOpen (state m) \<longrightarrow>
       e = ToggleMobileMenu \<or>
       (isMobileMenuOpen (state m) \<and>
         (\<exists>c. e = DocumentClick (Element c) \<and> closest ''side-menu'' c = None))) \<and>
    (\<exists>m0. app (mount w0) = Some m0 \<and> \<not> isMobileMenuOpen (state m0))"
proof -
  have wf: "wf_world w" using reach by (rule reachable_wf)
  have a: "isMobileMenuOpen (state m) \<and> closest ''side-menu'' chain = None \<longrightarrow>
       (\<exists>w' m'. step (DocumentClick (Element chain)) w = Inr w' \<and> app w' = Some m' \<and>
          \<not> isMobileMenuOpen (state m'))"
    using click_outside_closes [OF wf m, of chain] by blast
  have i: "nav_className (SideMenuContent items c loc) \<in> set inside \<longrightarrow>
       step (DocumentClick (Element inside)) w = Inr w"
    using click_inside [OF wf m closest_inside, of items c loc inside] by blast
  have b: "\<exists>w' m'. step ToggleMobileMenu w = Inr w' \<and> app w' = Some m' \<and>
          isMobileMenuOpen (state m') = (\<not> isMobileMenuOpen (state m))"
    using m commit_state [OF m, of "toggleMobileMenu (state m)"]
    by (auto simp: toggleMobileMenu_def)
  have c: "step e w = Inr w2 \<and> app w2 = Some m2 \<and>
       isMobileMenuOpen (state m2) \<noteq> isMobileMenuOpen (state m) \<longrightarrow>
       e = ToggleMobileMenu \<or>
       (isMobileMenuOpen (state m) \<and>
         (\<exists>c. e = DocumentClick (Element c) \<and> closest ''side-menu'' c = None))"
    using step_changes_open [OF wf m, of e w2 m2] by blast
  have d: "\<exists>m0. app (mount w0) = Some m0 \<and> \<not> isMobileMenuOpen (state m0)"
    by (simp add: mount_def commit_def effect_click_outside_def Let_def setIsMobileMenuOpen_def)
  from a i b c d show ?thesis by blast
qed

theorem mobile_menu_transitions_witness:
  "run [Mount, ToggleMobileMenu] initial_world =
     Inr \<lparr>document_listeners = [\<lparr>fn_id = 1, captured = True\<rparr>], next_fn = 2,
          app = Some \<lparr>state = \<lparr>sidebarCollapsed = False, isMobileMenuOpen = True\<rparr>,
                      registered = \<lparr>fn_id = 1, captured = True\<rparr>\<rparr>\<rparr> \<and>
   closest ''side-menu'' [''version-badge'', ''header-version'', ''header'', ''App''] = None \<and>
   step (DocumentClick (Element [''version-badge'', ''header-version'', ''header'', ''App'']))
     \<lparr>document_listeners = [\<lparr>fn_id = 1, captured = True\<rparr>], next_fn = 2,
          app = Some \<lparr>state = \<lparr>sidebarCollapsed = False, isMobileMenuOpen = True\<rparr>,
                      registered = \<lparr>fn_id = 1, captured = True\<rparr>\<rparr>\<rparr>
    = Inr \<lparr>document_listeners = [\<lparr>fn_id = 2, captured = False\<rparr>], next_fn = 3,
          app = Some \<lparr>state = \<lparr>sidebarCollapsed = False, isMobileMenuOpen = False\<rparr>,
                      registered = \<lparr>fn_id = 2, captured = False\<rparr>\<rparr>\<rparr> \<and>
   step (DocumentClick (Element [''sidebar-toggle'', ''side-menu'', ''main-layout'', ''App'']))
     \<lparr>document_listeners = [\<lparr>fn_id = 1, captured = True\<rparr>], next_fn = 2,
          app = Some \<lparr>state = \<lparr>sidebarCollapsed = False, isMobileMenuOpen = True\<rparr>,
                      registered = \<lparr>fn_id = 1, captured = True\<rparr>\<rparr>\<rparr>
    = Inr \<lparr>document_listeners = [\<lparr>fn_id = 1, captured = True\<rparr>], next_fn = 2,
          app = Some \<lparr>state = \<lparr>sidebarCollapsed = False, isMobileMenuOpen = True\<rparr>,
                      registered = \<lparr>fn_id = 1, captured = True\<rparr>\<rparr>\<rparr>"
proof -
  let ?W = "\<lparr>document_listeners = [\<lparr>fn_id = 1, captured = True\<rparr>], next_fn = 2,
          app = Some \<lparr>state = \<lparr>sidebarCollapsed = False, isMobileMenuOpen = True\<rparr>,
                      registered = \<lparr>fn_id = 1, captured = True\<rparr>\<rparr>\<rparr>"
  let ?M = "\<lparr>state = \<lparr>sidebarCollapsed = False, isMobileMenuOpen = True\<rparr>,
                      registered = \<lparr>fn_id = 1, captured = True\<rparr>\<rparr>"
  let ?W2 = "\<lparr>document_listeners = [\<lparr>fn_id = 2, captured = False\<rparr>], next_fn = 3,
          app = Some \<lparr>state = \<lparr>sidebarCollapsed = False, isMobileMenuOpen = False\<rparr>,
                      registered = \<lparr>fn_id = 2, captured = False\<rparr>\<rparr>\<rparr>"
  let ?M2 = "\<lparr>state = \<lparr>sidebarCollapsed = False, isMobileMenuOpen = False\<rparr>,
                      registered = \<lparr>fn_id = 2, captured = False\<rparr>\<rparr>"
  let ?out = "[''version-badge'', ''header-version'', ''header'', ''App'']"
  let ?in = "[''sidebar-toggle'', ''side-menu'', ''main-layout'', ''App'']"
  have r: "run [Mount, ToggleMobileMenu] initial_world = Inr ?W"
    by (simp add: world_defs)
  have m: "app ?W = Some ?M" by simp
  have out: "closest ''side-menu'' ?out = None" by (simp add: closest_def classList_def ascii_whitespace_def)
  have s: "step (DocumentClick (Element ?out)) ?W = Inr ?W2" by (simp add: world_defs)
  have inside: "nav_className (SideMenuContent navigationItems False ''/'') \<in> set ?in"
    by (simp add: SideMenuContent_def)
  from mobile_menu_transitions [OF r m, of ?out navigationItems False "''/''" ?in
      "DocumentClick (Element ?out)" ?W2 ?M2 initial_world] inside
  have i: "step (DocumentClick (Element ?in)) ?W = Inr ?W" by blast
  from r out s i show ?thesis by blast
qed

text \<open>
  Claim C10. While the menu is closed, a click on the document leaves the world as it is,
  whatever its target, also one that is no element; and the only state update the
  listener ever requests is \<^verbatim>\<open>setIsMobileMenuOpen(false)\<close>.
\<close>

theorem click_listener_never_opens:
  assumes "run evs initial_world = Inr w" and "app w = Some m"
    and "\<not> isMobileMenuOpen (state m)"
  shows "step (DocumentClick tgt) w = Inr w \<and>
    (handleClickOutside isOpen tgt = Inr (Some v) \<longrightarrow> \<not> v)"
  using click_closed [OF reachable_wf [OF assms(1)] assms(2,3)]
  by (auto simp: handleClickOutside_def split: if_splits event_target.splits)

theorem click_listener_never_opens_witness:
  "run [Mount, ToggleSidebar] initial_world =
     Inr \<lparr>document_listeners = [\<lparr>fn_id = 0, captured = False\<rparr>], next_fn = 1,
          app = Some \<lparr>state = \<lparr>sidebarCollapsed = True, isMobileMenuOpen = False\<rparr>,
                      registered = \<lparr>fn_id = 0, captured = False\<rparr>\<rparr>\<rparr> \<and>
   step (DocumentClick (Element [''header'', ''App'']))
     \<lparr>document_listeners = [\<lparr>fn_id = 0, captured = False\<rparr>], next_fn = 1,
          app = Some \<lparr>state = \<lparr>sidebarCollapsed = True, isMobileMenuOpen = False\<rparr>,
                      registered = \<lparr>fn_id = 0, captured = False\<rparr>\<rparr>\<rparr>
   = Inr \<lparr>document_listeners = [\<lparr>fn_id = 0, captured = False\<rparr>], next_fn = 1,
          app = Some \<lparr>state = \<lparr>sidebarCollapsed = True, isMobileMenuOpen = False\<rparr>,
                      registered = \<lparr>fn_id = 0, captured = False\<rparr>\<rparr>\<rparr> \<and>
   step (DocumentClick NoTarget)
     \<lparr>document_listeners = [\<lparr>fn_id = 0, captured = False\<rparr>], next_fn = 1,
          app = Some \<lparr>state = \<lparr>sidebarCollapsed = True, isMobileMenuOpen = False\<rparr>,
                      registered = \<lparr>fn_id = 0, captured = False\<rparr>\<rparr>\<rparr>
   = Inr \<lparr>document_listeners = [\<lparr>fn_id = 0, captured = False\<rparr>], next_fn = 1,
          app = Some \<lparr>state = \<lparr>sidebarCollapsed = True, isMobileMenuOpen = False\<rparr>,
                      registered = \<lparr>fn_id = 0, captured = False\<rparr>\<rparr>\<rparr> \<and>
   handleClickOutside True (Element [''header'', ''App'']) = Inr (Some False)"
proof -
  let ?W = "\<lparr>document_listeners = [\<lparr>fn_id = 0, captured = False\<rparr>], next_fn = 1,
          app = Some \<lparr>state = \<lparr>sidebarCollapsed = True, isMobileMenuOpen = False\<rparr>,
                      registered = \<lparr>fn_id = 0, captured = False\<rparr>\<rparr>\<rparr>"
  let ?M = "\<lparr>state = \<lparr>sidebarCollapsed = True, isMobileMenuOpen = False\<rparr>,
                      registered = \<lparr>fn_id = 0, captured = False\<rparr>\<rparr>"
  have r: "run [Mount, ToggleSidebar] initial_world = Inr ?W"
    by (simp add: world_defs)
  have m: "app ?W = Some ?M" by simp
  have c: "\<not> isMobileMenuOpen (state ?M)" by simp
  have h: "handleClickOutside True (Element [''header'', ''App'']) = Inr (Some False)"
    by (simp add: world_defs)
  from click_listener_never_opens [OF r m c, of "Element [''header'', ''App'']" True False]
    click_listener_never_opens [OF r m c, of NoTarget True False] r h
  show ?thesis by simp
qed

section \<open>Targets that are not elements\<close>






section \<open>Exit status of the runner script\<close>

lemma and_then_simps:
  "and_then (Inr x) f = f x" "and_then (Inl status) f = Inl status"
  by (simp_all add: and_then_def)

lemma echo_lines_ok: "stdout_writable env \<Longrightarrow> echo_lines env ls = Inr ()"
  by (induction ls) (simp_all add: stdout_writable_def errexit_def and_then_simps)

lemma print_ok:
  assumes "stdout_writable env"
  shows "print_status env l = Inr ()" "print_success env l = Inr ()"
    "print_warning env l = Inr ()" "print_error env l = Inr ()"
  using assms
  by (simp_all add: stdout_writable_def errexit_def print_status_def print_success_def
      print_warning_def print_error_def)

lemma detect_fails:
  "stdout_writable env \<Longrightarrow> \<not> engine_usable env Docker \<Longrightarrow> \<not> engine_usable env Podman \<Longrightarrow>
   detect_container_runtime env = Inl 1"
  by (auto simp: engine_usable_def detect_container_runtime_def print_ok and_then_simps)

lemma script_no_engine:
  assumes "stdout_writable env" and "detect_container_runtime env = Inl 1"
    and "first_argument args \<noteq> ''--help''" and "first_argument args \<noteq> ''-h''"
  shows "script env args = Inl 1"
  using assms
  by (simp add: script_def main_def check_container_runtime_def and_then_simps Let_def
      echo_lines_ok del: echo_lines.simps)

lemma script_help:
  assumes "stdout_writable env"
    and "first_argument args = ''--help'' \<or> first_argument args = ''-h''"
  shows "script env args = Inl 0"
  using assms(2)
  by (auto simp add: script_def and_then_simps Let_def echo_lines_ok [OF assms(1)]
      simp del: echo_lines.simps)

text \<open>
  Claim C9, as amended. Provided every write to standard output succeeds: the script
  exits with status 0 when it is invoked with \<^verbatim>\<open>--help\<close> or \<^verbatim>\<open>-h\<close>, which looks for no
  engine; and in every other invocation it exits with status 1 when neither Docker nor
  Podman is both installed and answering \<^verbatim>\<open>info\<close>.
\<close>

theorem exit_status_no_engine_or_help:
  "stdout_writable env \<Longrightarrow>
   (\<not> engine_usable env Docker \<and> \<not> engine_usable env Podman \<and>
      first_argument args \<noteq> ''--help'' \<and> first_argument args \<noteq> ''-h''
        \<longrightarrow> exit_status env args = 1) \<and>
   (first_argument args = ''--help'' \<or> first_argument args = ''-h''
        \<longrightarrow> exit_status env args = 0)"
proof -
  assume w: "stdout_writable env"
  have a: "\<not> engine_usable env Docker \<and> \<not> engine_usable env Podman \<and>
      first_argument args \<noteq> ''--help'' \<and> first_argument args \<noteq> ''-h''
        \<longrightarrow> exit_status env args = 1"
    using script_no_engine [OF w detect_fails [OF w], of args] by (simp add: exit_status_def)
  have b: "first_argument args = ''--help'' \<or> first_argument args = ''-h''
        \<longrightarrow> exit_status env args = 0"
    using script_help [OF w, of args] by (simp add: exit_status_def)
  from a b show ?thesis by blast
qed

theorem exit_status_no_engine_or_help_witness:
  "stdout_writable nothing_installed \<and> stdout_writable all_succeed \<and>
   \<not> engine_usable nothing_installed Docker \<and> \<not> engine_usable nothing_installed Podman \<and>
   exit_status nothing_installed [] = 1 \<and> exit_status nothing_installed [''--stop''] = 1 \<and>
   exit_status nothing_installed [''-h''] = 0 \<and>
   exit_status all_succeed [''--help''] = 0"
proof -
  have w1: "stdout_writable nothing_installed"
    by (simp add: stdout_writable_def nothing_installed_def)
  have w2: "stdout_writable all_succeed"
    by (simp add: stdout_writable_def all_succeed_def)
  from w1 w2
    exit_status_no_engine_or_help [OF w1, of "[]"]
    exit_status_no_engine_or_help [OF w1, of "[''--stop'']"]
    exit_status_no_engine_or_help [OF w1, of "[''-h'']"]
    exit_status_no_engine_or_help [OF w2, of "[''--help'']"]
  show ?thesis
    by (simp add: engine_usable_def first_argument_def nothing_installed_def)
qed

text \<open>
  Claim C9 as stated fails when standard output cannot be written. With standard output
  closed, \<^verbatim>\<open>--help\<close> ends at its first \<^verbatim>\<open>echo\<close> with status 1, not 0, although both
  engines are usable. With no engine installed and standard output a broken pipe,
  \<^verbatim>\<open>--stop\<close> ends at the first \<^verbatim>\<open>print_error\<close> with status 141, not 1.
\<close>

theorem unwritable_stdout_exit_status:
  "engine_usable stdout_closed Docker \<and>
   exit_status stdout_closed [''--help''] = 1 \<and>
   \<not> engine_usable nothing_installed_broken_pipe Docker \<and>
   \<not> engine_usable nothing_installed_broken_pipe Podman \<and>
   exit_status nothing_installed_broken_pipe [''--stop''] = 141"
  by (simp add: engine_usable_def exit_status_def script_def first_argument_def
      stdout_closed_def nothing_installed_broken_pipe_def detect_container_runtime_def
      print_error_def errexit_def and_then_def)

end
